theory Spec2Isabelle
  imports Main "HOL-Library.Word"
begin

section \<open>JavaScript strings and arrays\<close>

text \<open>
  A JavaScript string is modelled as a \<^typ>\<open>string\<close>, one \<^typ>\<open>char\<close> per code unit
  (code units below 256). A value that may be \<open>undefined\<close> or \<open>null\<close> is an
  \<^typ>\<open>'a option\<close>. The functions below are the built-ins the helpers call:
  \<open>String.prototype.startsWith\<close>, \<open>includes\<close>, \<open>split\<close>, \<open>lastIndexOf\<close>,
  \<open>substring\<close>, \<open>Array.prototype.indexOf\<close>, \<open>findIndex\<close>, \<open>slice\<close>, \<open>join\<close> and
  \<open>parseInt\<close> followed by \<open>isNaN\<close>. An index result keeps JavaScript's \<open>-1\<close> for
  "not found".
\<close>

fun startsWith :: "string \<Rightarrow> string \<Rightarrow> bool" where
  "startsWith s [] = True"
| "startsWith [] (p # ps) = False"
| "startsWith (c # cs) (p # ps) = (c = p \<and> startsWith cs ps)"

fun includes_str :: "string \<Rightarrow> string \<Rightarrow> bool" where
  "includes_str [] t = (t = [])"
| "includes_str (c # cs) t = (startsWith (c # cs) t \<or> includes_str cs t)"

fun split :: "string \<Rightarrow> char \<Rightarrow> string list" where
  "split [] d = [[]]"
| "split (c # cs) d =
     (if c = d then [] # split cs d
      else (case split cs d of [] \<Rightarrow> [[c]] | p # ps \<Rightarrow> (c # p) # ps))"

fun join :: "string list \<Rightarrow> string \<Rightarrow> string" where
  "join [] d = []"
| "join [p] d = p"
| "join (p # q # ps) d = p @ d @ join (q # ps) d"

fun findIndex :: "'a list \<Rightarrow> ('a \<Rightarrow> bool) \<Rightarrow> int" where
  "findIndex [] P = - 1"
| "findIndex (x # xs) P =
     (if P x then 0 else (let i = findIndex xs P in if i = - 1 then - 1 else i + 1))"

definition indexOf :: "'a list \<Rightarrow> 'a \<Rightarrow> int" where
  "indexOf xs a = findIndex xs (\<lambda>x. x = a)"

fun lastIndexOf :: "string \<Rightarrow> char \<Rightarrow> int" where
  "lastIndexOf [] d = - 1"
| "lastIndexOf (c # cs) d =
     (let i = lastIndexOf cs d in
      if i = - 1 then (if c = d then 0 else - 1) else i + 1)"

definition slice :: "'a list \<Rightarrow> int \<Rightarrow> 'a list" where
  "slice xs i = drop (nat i) xs"

definition substring :: "string \<Rightarrow> int \<Rightarrow> int \<Rightarrow> string" where
  "substring s i j = take (nat j - nat i) (drop (nat i) s)"

definition substring_from :: "string \<Rightarrow> int \<Rightarrow> string" where
  "substring_from s i = drop (nat i) s"

text \<open>
  \<open>parseInt(s)\<close> with no radix skips leading white space, takes one optional sign, takes
  the prefix \<open>0x\<close>/\<open>0X\<close> as radix 16, and reads the longest run of digits of the radix;
  the result is \<open>NaN\<close> exactly when that run is empty. Only \<open>isNaN(parseInt(s))\<close> is
  used by the code.
\<close>

definition isStrWhiteSpaceChar :: "char \<Rightarrow> bool" where
  "isStrWhiteSpaceChar c = (of_char c \<in> {9, 10, 11, 12, 13, 32, 160 :: nat})"

definition isDecimalDigit :: "char \<Rightarrow> bool" where
  "isDecimalDigit c = (48 \<le> (of_char c :: nat) \<and> (of_char c :: nat) \<le> 57)"

definition isHexDigit :: "char \<Rightarrow> bool" where
  "isHexDigit c =
     (isDecimalDigit c \<or> (65 \<le> (of_char c :: nat) \<and> (of_char c :: nat) \<le> 70)
      \<or> (97 \<le> (of_char c :: nat) \<and> (of_char c :: nat) \<le> 102))"

definition stripSign :: "string \<Rightarrow> string" where
  "stripSign s = (case s of [] \<Rightarrow> [] | c # cs \<Rightarrow> if c = CHR ''+'' \<or> c = CHR ''-'' then cs else s)"

definition parseInt_isNaN :: "string \<Rightarrow> bool" where
  "parseInt_isNaN s =
     (let t = stripSign (dropWhile isStrWhiteSpaceChar s) in
      if startsWith t ''0x'' \<or> startsWith t ''0X''
      then (case drop 2 t of [] \<Rightarrow> True | c # cs \<Rightarrow> \<not> isHexDigit c)
      else (case t of [] \<Rightarrow> True | c # cs \<Rightarrow> \<not> isDecimalDigit c))"

text \<open>JavaScript truthiness of a possibly missing string: missing and \<open>""\<close> are falsy.\<close>

definition truthy :: "string option \<Rightarrow> bool" where
  "truthy v = (case v of None \<Rightarrow> False | Some s \<Rightarrow> s \<noteq> [])"

section \<open>cloudinaryHelper.js: getPublicIdFromUrl\<close>

text \<open>
  The callback of \<open>findIndex\<close> in \<open>getPublicIdFromUrl\<close>:
  \<open>part.startsWith('v') && !isNaN(parseInt(part.substring(1)))\<close>.
\<close>

definition isVersionPart :: "string \<Rightarrow> bool" where
  "isVersionPart part = (startsWith part ''v'' \<and> \<not> parseInt_isNaN (substring_from part 1))"

definition stripExtension :: "string \<Rightarrow> string" where
  "stripExtension publicIdWithExt =
     (let lastDotIndex = lastIndexOf publicIdWithExt CHR ''.'' in
      if lastDotIndex = - 1 then publicIdWithExt else substring publicIdWithExt 0 lastDotIndex)"

definition getPublicIdFromUrl :: "string option \<Rightarrow> string option" where
  "getPublicIdFromUrl url =
     (case url of
        None \<Rightarrow> None
      | Some u \<Rightarrow>
          if u = [] \<or> \<not> includes_str u ''cloudinary.com'' then None
          else
            let parts = split u CHR ''/'';
                uploadIndex = indexOf parts ''upload'';
                transformationIndex = findIndex parts isVersionPart
            in if uploadIndex = - 1 \<or> transformationIndex = - 1
                  \<or> transformationIndex \<le> uploadIndex
                  \<or> transformationIndex + 1 \<ge> int (length parts)
               then None
               else Some (stripExtension (join (slice parts (transformationIndex + 1)) ''/'')))"

text \<open>
  The resolver as the specification words it (section 4.3): find the path token
  \<open>upload\<close>, then the version segment after it (\<open>v\<close> followed by digits), and take
  everything after the version segment, minus the trailing extension; null when the URL
  does not have this shape. It is compared with \<^const>\<open>getPublicIdFromUrl\<close> below.
\<close>

definition isVDigits :: "string \<Rightarrow> bool" where
  "isVDigits part =
     (case part of [] \<Rightarrow> False | c # ds \<Rightarrow> c = CHR ''v'' \<and> ds \<noteq> [] \<and> list_all isDecimalDigit ds)"

definition spec_deriveHandle :: "string \<Rightarrow> string option" where
  "spec_deriveHandle u =
     (case dropWhile (\<lambda>p. p \<noteq> ''upload'') (split u CHR ''/'') of
        [] \<Rightarrow> None
      | upload # after \<Rightarrow>
          (case dropWhile (\<lambda>p. \<not> isVDigits p) after of
             [] \<Rightarrow> None
           | version # rest \<Rightarrow>
               if rest = [] then None else Some (stripExtension (join rest ''/''))))"

text \<open>
  The URLs on which the version test of the code and the version segment of the
  specification cannot differ: a segment passes the test of the code
  (\<^const>\<open>isVersionPart\<close>) exactly when it is \<open>v\<close> followed by digits, and no such segment
  stands before the first \<open>upload\<close>.
\<close>

definition version_unambiguous :: "string \<Rightarrow> bool" where
  "version_unambiguous u =
     (let parts = split u CHR ''/'' in
      list_all (\<lambda>p. isVersionPart p = isVDigits p) parts
      \<and> list_all (\<lambda>p. \<not> isVDigits p) (takeWhile (\<lambda>p. p \<noteq> ''upload'') parts))"

section \<open>The remote store, the document store and the call log\<close>

text \<open>
  An awaited promise either fulfils with a value or rejects with an error message.
  The remote store (\<open>cloudinary.uploader\<close>) and the document store (Mongoose) are the
  environment of a handler: \<open>env\<close> fixes how they answer during one request. A handler
  is modelled by the sequence of calls it makes on them and the way it ends
  (\<open>res.status(..).json(..)\<close> or \<open>next(err)\<close>), in program order; every \<open>await\<close> is
  sequential, so the order of the list is the order of the calls.
\<close>

datatype 'a outcome = Fulfilled 'a | Rejected string

type_synonym byte = "8 word"

record upload_file =
  fieldname :: string
  originalname :: string
  mimetype :: string
  buffer :: "byte list option"

record upload_result =
  secure_url :: "string option"
  public_id :: "string option"

record destroy_result =
  result :: string
  message :: "string option"

text \<open>The data URI built by \<open>parser.format(extname, buffer)\<close>, kept as its two inputs.\<close>

type_synonym datauri = "string \<times> byte list"

datatype event =
    FormatBuffer string
  | CloudUpload string "upload_result outcome"
  | CloudDestroy string string "destroy_result outcome"
  | FsUnlink string
  | DbSave "string option" "string option"
  | DbSaveFailed string
  | DbDelete
  | DbDeleteFailed string
  | Respond nat string
  | Next "nat option" string

text \<open>
  \<^item> \<open>FormatBuffer name\<close>: \<open>formatBufferToDataURI\<close> ran on the file of that name;
  \<^item> \<open>CloudUpload folder r\<close>: \<open>cloudinary.uploader.upload\<close> was called and settled as \<open>r\<close>;
  \<^item> \<open>CloudDestroy id type r\<close>: \<open>cloudinary.uploader.destroy\<close> was called and settled as \<open>r\<close>;
  \<^item> \<open>FsUnlink path\<close>: \<open>fs.unlink\<close> was called;
  \<^item> \<open>DbSave url handle\<close>: \<open>save()\<close> succeeded on a document with these media fields;
    \<open>DbSaveFailed m\<close>: \<open>save()\<close> threw;
  \<^item> \<open>DbDelete\<close>, \<open>DbDeleteFailed m\<close>: \<open>deleteOne\<close>/\<open>findByIdAndDelete\<close> succeeded or threw;
  \<^item> \<open>Respond status message\<close>; \<open>Next statusCode message\<close> is \<open>next(err)\<close>.
\<close>

record env =
  uploader_upload :: "datauri \<Rightarrow> string \<Rightarrow> upload_result outcome"
  uploader_destroy :: "string \<Rightarrow> string \<Rightarrow> destroy_result outcome"
  find_error :: "string option"
  email_exists :: "string \<Rightarrow> bool"
  save_error :: "string option"
  delete_error :: "string option"
  query_error :: "string option"

text \<open>
  \<open>find_error\<close>, \<open>save_error\<close>, \<open>delete_error\<close> and \<open>query_error\<close> are \<open>None\<close> when the
  first \<open>findById\<close>, the \<open>save()\<close>, the delete and the queries after the write succeed,
  and the thrown message otherwise.
\<close>

section \<open>cloudinaryHelper.js: upload and delete\<close>

definition formatBufferToDataURI :: "upload_file option \<Rightarrow> datauri option" where
  "formatBufferToDataURI file =
     (case file of
        None \<Rightarrow> None
      | Some f \<Rightarrow> (case buffer f of None \<Rightarrow> None | Some b \<Rightarrow> Some (originalname f, b)))"

definition uploadToCloudinary ::
  "env \<Rightarrow> upload_file option \<Rightarrow> string \<Rightarrow> event list \<times> upload_result option outcome" where
  "uploadToCloudinary e file folder =
     (case file of
        None \<Rightarrow> ([], Fulfilled None)
      | Some f \<Rightarrow>
          (case formatBufferToDataURI (Some f) of
             None \<Rightarrow> ([FormatBuffer (originalname f)], Rejected ''Failed to process file buffer.'')
           | Some dataUri \<Rightarrow>
               (case uploader_upload e dataUri folder of
                  Fulfilled r \<Rightarrow>
                    ([FormatBuffer (originalname f), CloudUpload folder (Fulfilled r)],
                     Fulfilled (Some \<lparr>secure_url = secure_url r, public_id = public_id r\<rparr>))
                | Rejected m \<Rightarrow>
                    ([FormatBuffer (originalname f), CloudUpload folder (Rejected m)],
                     Rejected (''Cloudinary upload failed: '' @ m)))))"

text \<open>\<open>resourceType\<close> is the optional second argument, \<open>'auto'\<close> when absent.\<close>

definition deleteFromCloudinary ::
  "env \<Rightarrow> string option \<Rightarrow> string option \<Rightarrow> event list \<times> destroy_result outcome" where
  "deleteFromCloudinary e publicId resourceType =
     (case publicId of
        None \<Rightarrow> ([], Fulfilled \<lparr>result = ''ok'', message = Some ''No publicId provided.''\<rparr>)
      | Some pid \<Rightarrow>
          if pid = [] then ([], Fulfilled \<lparr>result = ''ok'', message = Some ''No publicId provided.''\<rparr>)
          else
            let rt = (case resourceType of None \<Rightarrow> ''auto'' | Some t \<Rightarrow> t) in
            (case uploader_destroy e pid rt of
               Fulfilled r \<Rightarrow> ([CloudDestroy pid rt (Fulfilled r)], Fulfilled r)
             | Rejected m \<Rightarrow>
                 ([CloudDestroy pid rt (Rejected m)], Rejected (''Cloudinary deletion error: '' @ m))))"

section \<open>Requests and documents\<close>

text \<open>
  The Express request, restricted to what the media handlers read. \<open>id_valid\<close> is
  \<open>mongoose.Types.ObjectId.isValid\<close> of the id in the route; \<open>body_error\<close> is the message
  of the first failing check of the text fields that \<open>createEvent\<close> and
  \<open>createBusiness\<close> make before their \<open>try\<close> block (required fields, date, category,
  e-mail and web site format), \<open>None\<close> when they all pass. \<open>req_file\<close> is \<open>req.file\<close>;
  \<open>files_image\<close> and \<open>files_video\<close> are \<open>req.files?.image?.[0]\<close> and
  \<open>req.files?.video?.[0]\<close>.
\<close>

record request =
  user_id :: string
  isAdmin :: bool
  id_valid :: bool
  body_error :: "string option"
  caption :: "string option"
  content :: "string option"
  email :: "string option"
  req_file :: "upload_file option"
  files_image :: "upload_file option"
  files_video :: "upload_file option"

text \<open>The documents, restricted to the owner and the media fields of each schema.\<close>

record user =
  username :: string
  user_email :: string
  verified :: bool
  profilePic :: "string option"

record post =
  post_user :: string
  post_image :: "string option"
  post_video :: "string option"
  mediaPublicId :: "string option"

record story =
  story_user :: string
  mediaUrl :: "string option"
  publicId :: "string option"

record event_doc =
  organizer :: string
  event_image :: "string option"
  event_imagePublicId :: "string option"

record business =
  owner :: string
  business_image :: "string option"
  business_imagePublicId :: "string option"

definition DEFAULT_AVATAR_PATH :: string where
  "DEFAULT_AVATAR_PATH = ''/uploads/profile-pics/default_avatar.png''"

text \<open>\<open>a || b\<close> and \<open>x?.f\<close> on values that may be missing; \<open>toLowerCase\<close> on code units below 256.\<close>

definition js_or :: "string option \<Rightarrow> string option \<Rightarrow> string option" where
  "js_or a b = (if truthy a then a else b)"

definition opt_field :: "('a \<Rightarrow> 'b option) \<Rightarrow> 'a option \<Rightarrow> 'b option" where
  "opt_field f x = (case x of None \<Rightarrow> None | Some r \<Rightarrow> f r)"

definition toLowerCase :: "string \<Rightarrow> string" where
  "toLowerCase s =
     map (\<lambda>c. let n = (of_char c :: nat) in
               if (65 \<le> n \<and> n \<le> 90) \<or> (192 \<le> n \<and> n \<le> 222 \<and> n \<noteq> 215)
               then char_of (n + 32) else c) s"

text \<open>
  The common end of the create and update handlers: \<open>await doc.save()\<close>, the queries that
  build the response, and the response. A throw goes to the handler's \<open>catch\<close>, which
  calls \<open>next(error)\<close>.
\<close>

definition save_and_respond ::
  "env \<Rightarrow> string option \<Rightarrow> string option \<Rightarrow> nat \<Rightarrow> string \<Rightarrow> event list" where
  "save_and_respond e url handle status msg =
     (case save_error e of
        Some m \<Rightarrow> [DbSaveFailed m, Next None m]
      | None \<Rightarrow>
          (case query_error e of
             Some m \<Rightarrow> [DbSave url handle, Next None m]
           | None \<Rightarrow> [DbSave url handle, Respond status msg]))"

text \<open>The common end of the delete handlers: the delete of the record and the response.\<close>

definition delete_and_respond :: "env \<Rightarrow> string \<Rightarrow> event list" where
  "delete_and_respond e msg =
     (case delete_error e of
        Some m \<Rightarrow> [DbDeleteFailed m, Next None m]
      | None \<Rightarrow> [DbDelete, Respond 200 msg])"

text \<open>
  \<open>try { await deleteFromCloudinary(id, type) } catch (e) { console.error(..) }\<close>: the
  call is made and its outcome is dropped.
\<close>

definition try_delete :: "env \<Rightarrow> string option \<Rightarrow> string option \<Rightarrow> event list" where
  "try_delete e handle resourceType = fst (deleteFromCloudinary e handle resourceType)"

section \<open>storyController.js\<close>

definition createStory :: "env \<Rightarrow> request \<Rightarrow> event list" where
  "createStory e req =
     (case req_file req of
        None \<Rightarrow> [Next None ''Story media file is required.'']
      | Some storyMediaFile \<Rightarrow>
          if (case caption req of None \<Rightarrow> False | Some c \<Rightarrow> c \<noteq> [] \<and> length c > 200)
          then [Next None ''Caption too long.'']
          else if \<not> startsWith (mimetype storyMediaFile) ''image''
                  \<and> \<not> startsWith (mimetype storyMediaFile) ''video''
          then [Next None ''Invalid media type for story.'']
          else
            (case uploadToCloudinary e (Some storyMediaFile) ''patwa_toli/stories'' of
               (tr, Rejected m) \<Rightarrow> tr @ [Next None m]
             | (tr, Fulfilled uploadResult) \<Rightarrow>
                 if \<not> truthy (opt_field secure_url uploadResult)
                    \<or> \<not> truthy (opt_field public_id uploadResult)
                 then tr @ [Next None ''Failed to upload story media to Cloudinary.'']
                 else tr @ save_and_respond e (opt_field secure_url uploadResult)
                             (opt_field public_id uploadResult) 201 ''Story created.''))"

definition deleteStory :: "env \<Rightarrow> request \<Rightarrow> story option \<Rightarrow> event list" where
  "deleteStory e req found =
     (if \<not> id_valid req then [Next None ''Invalid story ID.'']
      else
        (case find_error e of
           Some m \<Rightarrow> [Next None m]
         | None \<Rightarrow>
             (case found of
                None \<Rightarrow> [Next (Some 404) ''Story not found.'']
              | Some story \<Rightarrow>
                  if story_user story \<noteq> user_id req then [Next (Some 403) ''Forbidden.'']
                  else
                    (if truthy (publicId story) then try_delete e (publicId story) None else [])
                    @ delete_and_respond e ''Story deleted.'')))"

section \<open>eventController.js\<close>

definition createEvent :: "env \<Rightarrow> request \<Rightarrow> event list" where
  "createEvent e req =
     (case body_error req of
        Some m \<Rightarrow> [Next None m]
      | None \<Rightarrow>
          (case req_file req of
             None \<Rightarrow> save_and_respond e None None 201 ''Event created.''
           | Some eventImageFile \<Rightarrow>
               (case uploadToCloudinary e (Some eventImageFile) ''patwa_toli/events'' of
                  (tr, Rejected m) \<Rightarrow> tr @ [Next None m]
                | (tr, Fulfilled imageUploadResult) \<Rightarrow>
                    if \<not> truthy (opt_field secure_url imageUploadResult)
                    then tr @ [Next None ''Image upload failed.'']
                    else tr @ save_and_respond e (opt_field secure_url imageUploadResult)
                                (opt_field public_id imageUploadResult) 201 ''Event created.'')))"

definition updateEvent :: "env \<Rightarrow> request \<Rightarrow> event_doc option \<Rightarrow> event list" where
  "updateEvent e req found =
     (if \<not> id_valid req then [Next None ''Invalid event ID.'']
      else
        (case find_error e of
           Some m \<Rightarrow> [Next None m]
         | None \<Rightarrow>
             (case found of
                None \<Rightarrow> [Next (Some 404) ''Event not found.'']
              | Some ev \<Rightarrow>
                  if organizer ev \<noteq> user_id req \<and> \<not> isAdmin req
                  then [Next (Some 403) ''Forbidden.'']
                  else
                    let oldImagePublicId = event_imagePublicId ev in
                    (case req_file req of
                       None \<Rightarrow>
                         save_and_respond e (event_image ev) (event_imagePublicId ev)
                           200 ''Event updated.''
                     | Some eventImageFile \<Rightarrow>
                         (case uploadToCloudinary e (Some eventImageFile) ''patwa_toli/events'' of
                            (tr, Rejected m) \<Rightarrow> tr @ [Next None m]
                          | (tr, Fulfilled uploadResult) \<Rightarrow>
                              if \<not> truthy (opt_field secure_url uploadResult)
                              then tr @ [Next None ''Image upload failed.'']
                              else
                                tr
                                @ (if truthy oldImagePublicId
                                   then try_delete e oldImagePublicId None else [])
                                @ save_and_respond e (opt_field secure_url uploadResult)
                                    (opt_field public_id uploadResult) 200 ''Event updated.'')))))"

definition deleteEvent :: "env \<Rightarrow> request \<Rightarrow> event_doc option \<Rightarrow> event list" where
  "deleteEvent e req found =
     (if \<not> id_valid req then [Next None ''Invalid event ID.'']
      else
        (case find_error e of
           Some m \<Rightarrow> [Next None m]
         | None \<Rightarrow>
             (case found of
                None \<Rightarrow> [Next (Some 404) ''Event not found.'']
              | Some ev \<Rightarrow>
                  if organizer ev \<noteq> user_id req \<and> \<not> isAdmin req
                  then [Next (Some 403) ''Forbidden.'']
                  else
                    (if truthy (event_imagePublicId ev)
                     then try_delete e (event_imagePublicId ev) None else [])
                    @ delete_and_respond e ''Event deleted.'')))"

section \<open>businessController.js\<close>

definition createBusiness :: "env \<Rightarrow> request \<Rightarrow> event list" where
  "createBusiness e req =
     (case body_error req of
        Some m \<Rightarrow> [Next None m]
      | None \<Rightarrow>
          (case req_file req of
             None \<Rightarrow> save_and_respond e None None 201 ''Business listing created successfully.''
           | Some businessImageFile \<Rightarrow>
               (case uploadToCloudinary e (Some businessImageFile) ''patwa_toli/businesses'' of
                  (tr, Rejected m) \<Rightarrow> tr @ [Next None m]
                | (tr, Fulfilled imageUploadResult) \<Rightarrow>
                    if \<not> truthy (opt_field secure_url imageUploadResult)
                       \<or> \<not> truthy (opt_field public_id imageUploadResult)
                    then tr @ [Next None ''Business image upload to Cloudinary failed.'']
                    else tr @ save_and_respond e (opt_field secure_url imageUploadResult)
                                (opt_field public_id imageUploadResult)
                                201 ''Business listing created successfully.'')))"

definition updateBusiness :: "env \<Rightarrow> request \<Rightarrow> business option \<Rightarrow> event list" where
  "updateBusiness e req found =
     (if \<not> id_valid req then [Next None ''Invalid business ID format.'']
      else
        (case find_error e of
           Some m \<Rightarrow> [Next None m]
         | None \<Rightarrow>
             (case found of
                None \<Rightarrow> [Next (Some 404) ''Business listing not found.'']
              | Some b \<Rightarrow>
                  if owner b \<noteq> user_id req \<and> \<not> isAdmin req
                  then [Next (Some 403) ''Forbidden: Not authorized.'']
                  else
                    let oldImagePublicId = business_imagePublicId b in
                    (case req_file req of
                       None \<Rightarrow>
                         save_and_respond e (business_image b) (business_imagePublicId b)
                           200 ''Business listing updated.''
                     | Some businessImageFile \<Rightarrow>
                         (case uploadToCloudinary e (Some businessImageFile)
                                 ''patwa_toli/businesses'' of
                            (tr, Rejected m) \<Rightarrow> tr @ [Next None m]
                          | (tr, Fulfilled uploadResult) \<Rightarrow>
                              if \<not> truthy (opt_field secure_url uploadResult)
                              then tr @ [Next None ''Business image update failed.'']
                              else
                                tr
                                @ (if truthy oldImagePublicId
                                   then try_delete e oldImagePublicId None else [])
                                @ save_and_respond e (opt_field secure_url uploadResult)
                                    (opt_field public_id uploadResult)
                                    200 ''Business listing updated.'')))))"

definition deleteBusiness :: "env \<Rightarrow> request \<Rightarrow> business option \<Rightarrow> event list" where
  "deleteBusiness e req found =
     (if \<not> id_valid req then [Next None ''Invalid business ID format.'']
      else
        (case find_error e of
           Some m \<Rightarrow> [Next None m]
         | None \<Rightarrow>
             (case found of
                None \<Rightarrow> [Next (Some 404) ''Business listing not found.'']
              | Some b \<Rightarrow>
                  if owner b \<noteq> user_id req \<and> \<not> isAdmin req
                  then [Next (Some 403) ''Forbidden.'']
                  else
                    (if truthy (business_imagePublicId b)
                     then try_delete e (business_imagePublicId b) None else [])
                    @ delete_and_respond e ''Business listing deleted successfully.'')))"

section \<open>userController.js and adminController.js\<close>

definition updateMyProfile :: "env \<Rightarrow> request \<Rightarrow> user option \<Rightarrow> event list" where
  "updateMyProfile e req found =
     (case find_error e of
        Some m \<Rightarrow> [Next None m]
      | None \<Rightarrow>
          (case found of
             None \<Rightarrow> [Next (Some 404) ''User not found.'']
           | Some u \<Rightarrow>
               let oldProfilePicUrl = profilePic u;
                   oldPublicId = getPublicIdFromUrl oldProfilePicUrl;
                   newEmailLower = (if truthy (email req)
                                    then map_option toLowerCase (email req) else None)
               in
               if (case newEmailLower of
                     None \<Rightarrow> False
                   | Some m \<Rightarrow> m \<noteq> [] \<and> m \<noteq> user_email u \<and> email_exists e m)
               then [Next (Some 400) ''Email already in use.'']
               else
                 (case req_file req of
                    None \<Rightarrow> save_and_respond e oldProfilePicUrl None 200 ''Profile updated successfully''
                  | Some profilePicFile \<Rightarrow>
                      (case uploadToCloudinary e (Some profilePicFile) ''patwa_toli/profile-pics'' of
                         (tr, Rejected m) \<Rightarrow> tr @ [Next None m]
                       | (tr, Fulfilled uploadResult) \<Rightarrow>
                           if \<not> truthy (opt_field secure_url uploadResult)
                              \<or> \<not> truthy (opt_field public_id uploadResult)
                           then tr @ [Next None ''Profile picture upload failed.'']
                           else
                             tr
                             @ (if truthy oldPublicId
                                   \<and> oldProfilePicUrl \<noteq> Some DEFAULT_AVATAR_PATH
                                then try_delete e oldPublicId None else [])
                             @ save_and_respond e (opt_field secure_url uploadResult) None
                                 200 ''Profile updated successfully''))))"


section \<open>postController.js\<close>

text \<open>
  \<open>createPost\<close> puts \<open>mediaPublicId\<close> into the data of the new post, but the schema of
  \<open>models/Post.js\<close> declares no such path, so the saved document keeps the URL and no
  handle.
\<close>

definition createPost :: "env \<Rightarrow> request \<Rightarrow> event list" where
  "createPost e req =
     (let imageFile = files_image req; videoFile = files_video req in
      if \<not> truthy (content req) \<and> imageFile = None \<and> videoFile = None
      then [Next None ''Post must contain text content or media.'']
      else
        let postMediaType = (if imageFile \<noteq> None then Some ''image''
                             else if videoFile \<noteq> None then Some ''video'' else None);
            upload = (if imageFile \<noteq> None then uploadToCloudinary e imageFile ''patwa_toli/posts''
                      else if videoFile \<noteq> None then uploadToCloudinary e videoFile ''patwa_toli/posts''
                      else ([], Fulfilled None))
        in
        (case upload of
           (tr, Rejected m) \<Rightarrow> tr @ [Next None m]
         | (tr, Fulfilled uploadResult) \<Rightarrow>
             if (imageFile \<noteq> None \<or> videoFile \<noteq> None)
                \<and> (\<not> truthy (opt_field secure_url uploadResult)
                     \<or> \<not> truthy (opt_field public_id uploadResult))
             then tr @ [Next None (''Cloudinary upload failed for post ''
                          @ (case postMediaType of None \<Rightarrow> ''media'' | Some t \<Rightarrow> t) @ ''.'')]
             else tr @ save_and_respond e (opt_field secure_url uploadResult) None
                         201 ''Post created successfully.''))"

text \<open>
  \<open>deletePost\<close> takes the stored \<open>mediaPublicId\<close> when it is truthy and derives the handle
  from \<open>post.image || post.video\<close> otherwise; the resource type is \<open>'video'\<close> for a post
  with a video and \<open>'image'\<close> otherwise.
\<close>

definition deletePost :: "env \<Rightarrow> request \<Rightarrow> post option \<Rightarrow> event list" where
  "deletePost e req found =
     (if \<not> id_valid req then [Next None ''Invalid post ID.'']
      else
        (case find_error e of
           Some m \<Rightarrow> [Next None m]
         | None \<Rightarrow>
             (case found of
                None \<Rightarrow> [Next (Some 404) ''Post not found.'']
              | Some p \<Rightarrow>
                  if post_user p \<noteq> user_id req \<and> \<not> isAdmin req
                  then [Next (Some 403) ''Forbidden.'']
                  else
                    let publicIdToDelete =
                          js_or (mediaPublicId p)
                            (getPublicIdFromUrl (js_or (post_image p) (post_video p)))
                    in
                    (if truthy publicIdToDelete
                     then try_delete e publicIdToDelete
                            (Some (if truthy (post_video p) then ''video'' else ''image''))
                     else [])
                    @ delete_and_respond e ''Post deleted successfully.'')))"

section \<open>uploadMiddleware.js and the routes\<close>

text \<open>
  \<open>new multer.MulterError(code, field)\<close>. The two filters and the four size limits are
  those of the file.
\<close>

record multer_error =
  code :: string
  field :: string

definition imageFileFilter :: "upload_file \<Rightarrow> multer_error option" where
  "imageFileFilter f =
     (if startsWith (mimetype f) ''image/'' then None
      else Some \<lparr>code = ''LIMIT_UNEXPECTED_FILE'', field = ''Only image files are allowed!''\<rparr>)"

definition mediaFileFilter :: "upload_file \<Rightarrow> multer_error option" where
  "mediaFileFilter f =
     (if startsWith (mimetype f) ''image/'' \<or> startsWith (mimetype f) ''video/'' then None
      else Some \<lparr>code = ''LIMIT_UNEXPECTED_FILE'',
                 field = ''Only image or video files are allowed!''\<rparr>)"

definition FIVE_MB :: nat where "FIVE_MB = 5 * 1024 * 1024"
definition FIFTY_MB :: nat where "FIFTY_MB = 50 * 1024 * 1024"
definition TEN_MB :: nat where "TEN_MB = 10 * 1024 * 1024"
definition TWENTY_FIVE_MB :: nat where "TWENTY_FIVE_MB = 25 * 1024 * 1024"

text \<open>
  A configured instance \<open>multer({storage, fileFilter, limits}).single(name)\<close> or
  \<open>.fields([{name, maxCount}, ..])\<close>: the filter, \<open>limits.fileSize\<close> and the accepted
  field names with their counts (\<open>single(name)\<close> accepts one file in \<open>name\<close>).
\<close>

record multer_options =
  fileFilter :: "upload_file \<Rightarrow> multer_error option"
  fileSize :: nat
  accepted_fields :: "(string \<times> nat) list"

definition uploadProfilePic :: multer_options where
  "uploadProfilePic =
     \<lparr>fileFilter = imageFileFilter, fileSize = FIVE_MB, accepted_fields = [(''profilePic'', 1)]\<rparr>"

definition uploadPostMedia :: multer_options where
  "uploadPostMedia =
     \<lparr>fileFilter = mediaFileFilter, fileSize = FIFTY_MB,
      accepted_fields = [(''image'', 1), (''video'', 1)]\<rparr>"

definition uploadStoryMedia :: multer_options where
  "uploadStoryMedia =
     \<lparr>fileFilter = mediaFileFilter, fileSize = TWENTY_FIVE_MB, accepted_fields = [(''storyMedia'', 1)]\<rparr>"

definition uploadEventImage :: multer_options where
  "uploadEventImage =
     \<lparr>fileFilter = imageFileFilter, fileSize = TEN_MB, accepted_fields = [(''eventImage'', 1)]\<rparr>"

definition uploadBusinessImage :: multer_options where
  "uploadBusinessImage =
     \<lparr>fileFilter = imageFileFilter, fileSize = TEN_MB, accepted_fields = [(''businessImage'', 1)]\<rparr>"

text \<open>
  The size of a pending upload is the length of its buffer. \<open>filesLeft\<close> counts, for
  each field name, the files still accepted in it; a name that is not configured
  accepts none.
\<close>

definition file_length :: "upload_file \<Rightarrow> nat" where
  "file_length f = (case buffer f of None \<Rightarrow> 0 | Some b \<Rightarrow> length b)"

definition filesLeft_init :: "multer_options \<Rightarrow> string \<Rightarrow> nat" where
  "filesLeft_init opts name = (case map_of (accepted_fields opts) name of None \<Rightarrow> 0 | Some n \<Rightarrow> n)"

text \<open>
  Modelled from the spec: the enforcement of the upload policy on a pending upload
  (\<open>validate\<close> of section 4.1), which the repository delegates to the \<open>multer\<close> package;
  only the configuration above is in the sources. A pending upload is rejected when its
  MIME type is refused by the filter or when its buffer is larger than the limit of its
  class, each with its own error kind, and nothing reaches the handler after a
  rejection. The checks are made in the order in which \<open>multer\<close> makes them: a file part
  is tested when it starts (is a file still expected in this field, then the file
  filter), and the size limit is hit while the data of an accepted part is read into
  the memory buffer. The parts of a request are handled in the order they arrive and the
  first error ends the request with \<open>next(err)\<close>.
\<close>

fun multer_files ::
  "multer_options \<Rightarrow> (string \<Rightarrow> nat) \<Rightarrow> upload_file list \<Rightarrow> multer_error + upload_file list" where
  "multer_files opts filesLeft [] = Inr []"
| "multer_files opts filesLeft (f # fs) =
     (if filesLeft (fieldname f) = 0
      then Inl \<lparr>code = ''LIMIT_UNEXPECTED_FILE'', field = fieldname f\<rparr>
      else
        (case fileFilter opts f of
           Some err \<Rightarrow> Inl err
         | None \<Rightarrow>
             if file_length f > fileSize opts
             then Inl \<lparr>code = ''LIMIT_FILE_SIZE'', field = fieldname f\<rparr>
             else
               (case multer_files opts
                       (filesLeft(fieldname f := filesLeft (fieldname f) - 1)) fs of
                  Inl err \<Rightarrow> Inl err
                | Inr acc \<Rightarrow> Inr (f # acc))))"

definition multer :: "multer_options \<Rightarrow> upload_file list \<Rightarrow> multer_error + upload_file list" where
  "multer opts parts = multer_files opts (filesLeft_init opts) parts"

text \<open>
  The global error handler of \<open>server.js\<close> answers a \<open>MulterError\<close> with status 400 and
  the message \<open>File Upload Error: <code>\<close> (the older version of the file appends the
  text of the error). A route \<open>router.post(path, protect, upload, handler)\<close> runs the
  upload middleware and then the handler, or the error handler when the middleware
  called \<open>next(err)\<close>; \<open>protect\<close> is taken to have passed.
\<close>

definition errorHandler :: "multer_error \<Rightarrow> event list" where
  "errorHandler err = [Respond 400 (''File Upload Error: '' @ code err)]"

definition with_upload ::
  "multer_options \<Rightarrow> upload_file list \<Rightarrow> (upload_file list \<Rightarrow> event list) \<Rightarrow> event list" where
  "with_upload opts parts handler =
     (case multer opts parts of Inl err \<Rightarrow> errorHandler err | Inr files \<Rightarrow> handler files)"

definition file_in :: "string \<Rightarrow> upload_file list \<Rightarrow> upload_file option" where
  "file_in name files = find (\<lambda>f. fieldname f = name) files"

definition route_createPost :: "env \<Rightarrow> request \<Rightarrow> upload_file list \<Rightarrow> event list" where
  "route_createPost e req parts =
     with_upload uploadPostMedia parts
       (\<lambda>files. createPost e
          (req\<lparr>files_image := file_in ''image'' files, files_video := file_in ''video'' files\<rparr>))"

definition route_updateMyProfile ::
  "env \<Rightarrow> request \<Rightarrow> upload_file list \<Rightarrow> user option \<Rightarrow> event list" where
  "route_updateMyProfile e req parts found =
     with_upload uploadProfilePic parts
       (\<lambda>files. updateMyProfile e (req\<lparr>req_file := file_in ''profilePic'' files\<rparr>) found)"

definition route_createStory :: "env \<Rightarrow> request \<Rightarrow> upload_file list \<Rightarrow> event list" where
  "route_createStory e req parts =
     with_upload uploadStoryMedia parts
       (\<lambda>files. createStory e (req\<lparr>req_file := file_in ''storyMedia'' files\<rparr>))"

definition route_createEvent :: "env \<Rightarrow> request \<Rightarrow> upload_file list \<Rightarrow> event list" where
  "route_createEvent e req parts =
     with_upload uploadEventImage parts
       (\<lambda>files. createEvent e (req\<lparr>req_file := file_in ''eventImage'' files\<rparr>))"

definition route_updateEvent ::
  "env \<Rightarrow> request \<Rightarrow> upload_file list \<Rightarrow> event_doc option \<Rightarrow> event list" where
  "route_updateEvent e req parts found =
     with_upload uploadEventImage parts
       (\<lambda>files. updateEvent e (req\<lparr>req_file := file_in ''eventImage'' files\<rparr>) found)"

definition route_createBusiness :: "env \<Rightarrow> request \<Rightarrow> upload_file list \<Rightarrow> event list" where
  "route_createBusiness e req parts =
     with_upload uploadBusinessImage parts
       (\<lambda>files. createBusiness e (req\<lparr>req_file := file_in ''businessImage'' files\<rparr>))"

definition route_updateBusiness ::
  "env \<Rightarrow> request \<Rightarrow> upload_file list \<Rightarrow> business option \<Rightarrow> event list" where
  "route_updateBusiness e req parts found =
     with_upload uploadBusinessImage parts
       (\<lambda>files. updateBusiness e (req\<lparr>req_file := file_in ''businessImage'' files\<rparr>) found)"

section \<open>Observations on a call log\<close>

fun is_destroy :: "event \<Rightarrow> bool" where
  "is_destroy (CloudDestroy pid rt r) = True"
| "is_destroy x = False"

fun is_upload :: "event \<Rightarrow> bool" where
  "is_upload (CloudUpload folder r) = True"
| "is_upload x = False"

fun is_format :: "event \<Rightarrow> bool" where
  "is_format (FormatBuffer n) = True"
| "is_format x = False"

fun is_save :: "event \<Rightarrow> bool" where
  "is_save (DbSave url handle) = True"
| "is_save x = False"

text \<open>An upload that completed with a URL, which is what every update handler requires.\<close>

fun upload_succeeded :: "event \<Rightarrow> bool" where
  "upload_succeeded (CloudUpload folder (Fulfilled r)) = truthy (secure_url r)"
| "upload_succeeded x = False"

text \<open>The handles passed to the remote delete, in order.\<close>

fun destroyed_ids :: "event list \<Rightarrow> string list" where
  "destroyed_ids [] = []"
| "destroyed_ids (CloudDestroy pid rt r # tr) = pid # destroyed_ids tr"
| "destroyed_ids (x # tr) = destroyed_ids tr"

text \<open>
  \<open>destroys_preceded_by P False tr\<close>: every remote delete of the log comes after an event
  that satisfies \<open>P\<close>. \<open>no_destroy_after P False tr\<close>: no remote delete comes after one.
\<close>

fun destroys_preceded_by :: "(event \<Rightarrow> bool) \<Rightarrow> bool \<Rightarrow> event list \<Rightarrow> bool" where
  "destroys_preceded_by P seen [] = True"
| "destroys_preceded_by P seen (x # tr) =
     ((if is_destroy x then seen else True) \<and> destroys_preceded_by P (seen \<or> P x) tr)"

fun no_destroy_after :: "(event \<Rightarrow> bool) \<Rightarrow> bool \<Rightarrow> event list \<Rightarrow> bool" where
  "no_destroy_after P seen [] = True"
| "no_destroy_after P seen (x # tr) =
     ((if is_destroy x then \<not> seen else True) \<and> no_destroy_after P (seen \<or> P x) tr)"

definition destroy_only_after_upload :: "event list \<Rightarrow> bool" where
  "destroy_only_after_upload tr = destroys_preceded_by upload_succeeded False tr"

definition destroy_only_after_save :: "event list \<Rightarrow> bool" where
  "destroy_only_after_save tr = destroys_preceded_by is_save False tr"

definition destroy_before_save :: "event list \<Rightarrow> bool" where
  "destroy_before_save tr = no_destroy_after is_save False tr"

text \<open>
  The resolution of the deletion handle as the specification words it (section 4.4):
  the stored handle when present, else the handle derived from the stored URL.
\<close>

definition resolve_handle :: "string option \<Rightarrow> string option \<Rightarrow> string option" where
  "resolve_handle handle url = (if truthy handle then handle else getPublicIdFromUrl url)"

definition handles_of :: "string option \<Rightarrow> string list" where
  "handles_of h = (case h of None \<Rightarrow> [] | Some s \<Rightarrow> if s = [] then [] else [s])"

text \<open>
  The failure of an upload as a create handler can see it: the promise rejects, or the
  result lacks the URL or the handle.
\<close>

definition upload_failed :: "upload_result option outcome \<Rightarrow> bool" where
  "upload_failed r =
     (case r of
        Rejected m \<Rightarrow> True
      | Fulfilled x \<Rightarrow> \<not> truthy (opt_field secure_url x) \<or> \<not> truthy (opt_field public_id x))"

section \<open>A test double\<close>

text \<open>
  A remote store that accepts every upload and every delete, over a document store
  whose operations succeed; a small JPEG; a request of a given user with a given file.
\<close>

definition fake_store :: env where
  "fake_store =
     \<lparr>uploader_upload =
        (\<lambda>d folder. Fulfilled
           \<lparr>secure_url = Some (''https://res.cloudinary.com/demo/image/upload/v2/'' @ folder @ ''/new.jpg''),
            public_id = Some (folder @ ''/new'')\<rparr>),
      uploader_destroy = (\<lambda>pid rt. Fulfilled \<lparr>result = ''ok'', message = None\<rparr>),
      find_error = None,
      email_exists = (\<lambda>m. False),
      save_error = None,
      delete_error = None,
      query_error = None\<rparr>"

definition jpeg :: "string \<Rightarrow> upload_file" where
  "jpeg name =
     \<lparr>fieldname = name, originalname = ''new.jpg'', mimetype = ''image/jpeg'',
      buffer = Some [255, 216, 255]\<rparr>"

definition request_of :: "string \<Rightarrow> upload_file option \<Rightarrow> request" where
  "request_of uid f =
     \<lparr>user_id = uid, isAdmin = False, id_valid = True, body_error = None, caption = None,
      content = None, email = None, req_file = f, files_image = None, files_video = None\<rparr>"

section \<open>The string functions are the built-ins\<close>

lemma startsWith_iff: "startsWith s p \<longleftrightarrow> (\<exists>r. s = p @ r)"
  by (induction s p rule: startsWith.induct) auto

lemma includes_str_iff: "includes_str s t \<longleftrightarrow> (\<exists>pre post. s = pre @ t @ post)"
proof (induction s)
  case Nil
  then show ?case by simp
next
  case (Cons c cs)
  show ?case
  proof
    assume "includes_str (c # cs) t"
    then consider "startsWith (c # cs) t" | "includes_str cs t" by auto
    then show "\<exists>pre post. c # cs = pre @ t @ post"
    proof cases
      case 1
      then obtain r where "c # cs = t @ r" by (auto simp: startsWith_iff)
      then have "c # cs = [] @ t @ r" by simp
      then show ?thesis by blast
    next
      case 2
      with Cons obtain pre post where "cs = pre @ t @ post" by blast
      then have "c # cs = (c # pre) @ t @ post" by simp
      then show ?thesis by blast
    qed
  next
    assume "\<exists>pre post. c # cs = pre @ t @ post"
    then obtain pre post where eq: "c # cs = pre @ t @ post" by blast
    show "includes_str (c # cs) t"
    proof (cases pre)
      case Nil
      with eq have "startsWith (c # cs) t" by (auto simp: startsWith_iff)
      then show ?thesis by simp
    next
      case (Cons a pre')
      with eq have "cs = pre' @ t @ post" by simp
      with Cons.IH have "includes_str cs t" by blast
      then show ?thesis by simp
    qed
  qed
qed

lemma split_nonempty: "split s d \<noteq> []"
  by (induction s) (auto split: list.splits)

lemma join_split: "join (split s d) [d] = s"
proof (induction s)
  case Nil
  then show ?case by simp
next
  case (Cons c cs)
  obtain p ps where ps: "split cs d = p # ps"
    using split_nonempty [of cs d] by (cases "split cs d") auto
  show ?case
  proof (cases "c = d")
    case True
    with Cons ps show ?thesis by simp
  next
    case False
    with Cons ps show ?thesis by (cases ps) auto
  qed
qed

lemma findIndex_ge: "- 1 \<le> findIndex xs P"
  by (induction xs) (auto simp: Let_def)

lemma findIndex_none: "findIndex xs P = - 1 \<longleftrightarrow> (\<forall>x\<in>set xs. \<not> P x)"
proof (induction xs)
  case Nil
  then show ?case by simp
next
  case (Cons a xs)
  have "- 1 \<le> findIndex xs P" by (rule findIndex_ge)
  then show ?case using Cons by (auto simp: Let_def)
qed


lemma findIndex_decomp:
  assumes "findIndex xs P \<noteq> - 1"
  shows "\<exists>pre x rest. xs = pre @ x # rest \<and> (\<forall>p\<in>set pre. \<not> P p) \<and> P x"
proof -
  from assms have "\<exists>x\<in>set xs. P x" by (simp add: findIndex_none)
  then show ?thesis by (metis split_list_first_prop)
qed

lemma indexOf_before:
  "(indexOf (pre @ ys) a \<noteq> - 1 \<and> indexOf (pre @ ys) a < int (length pre)) \<longleftrightarrow> a \<in> set pre"
proof (induction pre)
  case Nil
  have "- 1 \<le> findIndex ys (\<lambda>x. x = a)" by (rule findIndex_ge)
  then show ?case by (auto simp: indexOf_def)
next
  case (Cons b pre)
  have "- 1 \<le> findIndex (pre @ ys) (\<lambda>x. x = a)" by (rule findIndex_ge)
  then show ?case using Cons by (auto simp: indexOf_def Let_def)
qed

section \<open>The reference resolver\<close>







text \<open>The two URLs that the theorem leaves out are not \<^const>\<open>version_unambiguous\<close>.\<close>

lemma urls_left_out:
  "\<not> version_unambiguous ''https://res.cloudinary.com/v2demo/image/upload/v123/folder/file.jpg''"
  "\<not> version_unambiguous ''https://res.cloudinary.com/demo/image/upload/v1x/a.b''"
  by code_simp+

text \<open>
  Claim C9. \<open>getPublicIdFromUrl\<close> returns null for every URL that does not contain
  \<open>cloudinary.com\<close>, whatever its structure.
\<close>

theorem getPublicIdFromUrl_requires_cloudinary:
  "\<not> includes_str u ''cloudinary.com'' \<Longrightarrow> getPublicIdFromUrl (Some u) = None"
  by (simp add: getPublicIdFromUrl_def)

theorem getPublicIdFromUrl_requires_cloudinary_witness:
  "\<not> includes_str ''https://example.org/demo/video/upload/v7/clips/intro.mp4'' ''cloudinary.com''
   \<and> getPublicIdFromUrl (Some ''https://example.org/demo/video/upload/v7/clips/intro.mp4'') = None
   \<and> spec_deriveHandle ''https://example.org/demo/video/upload/v7/clips/intro.mp4''
       = Some ''clips/intro''"
proof -
  have h: "\<not> includes_str ''https://example.org/demo/video/upload/v7/clips/intro.mp4'' ''cloudinary.com''"
    by code_simp
  have s: "spec_deriveHandle ''https://example.org/demo/video/upload/v7/clips/intro.mp4''
             = Some ''clips/intro''"
    by code_simp
  from getPublicIdFromUrl_requires_cloudinary [OF h] h s show ?thesis by simp
qed

section \<open>The remote store client\<close>

text \<open>
  Claim C10. \<open>uploadToCloudinary\<close> called without a file resolves to null: the buffer is
  not formatted and the remote store is not called.
\<close>

theorem uploadToCloudinary_no_file: "uploadToCloudinary e None folder = ([], Fulfilled None)"
  by (simp add: uploadToCloudinary_def)

text \<open>
  Claim C7. \<open>deleteFromCloudinary\<close> with a missing or empty handle resolves with
  \<open>result: 'ok'\<close> and makes no remote call; when the remote store answers
  \<open>not found\<close>, the promise resolves with that answer and does not reject.
\<close>

theorem deleteFromCloudinary_idempotent:
  "(\<not> truthy h \<longrightarrow>
      deleteFromCloudinary e h rt
        = ([], Fulfilled \<lparr>result = ''ok'', message = Some ''No publicId provided.''\<rparr>))
   \<and> (pid \<noteq> [] \<and> uploader_destroy e pid (case rt of None \<Rightarrow> ''auto'' | Some t \<Rightarrow> t) = Fulfilled r
        \<and> result r = ''not found'' \<longrightarrow>
      deleteFromCloudinary e (Some pid) rt
        = ([CloudDestroy pid (case rt of None \<Rightarrow> ''auto'' | Some t \<Rightarrow> t) (Fulfilled r)], Fulfilled r))"
  by (auto simp: deleteFromCloudinary_def truthy_def split: option.splits)

theorem deleteFromCloudinary_idempotent_witness:
  "\<not> truthy (Some '''')
   \<and> deleteFromCloudinary
         (fake_store\<lparr>uploader_destroy :=
            (\<lambda>pid rt. Fulfilled \<lparr>result = ''not found'', message = None\<rparr>)\<rparr>) (Some '''') None
       = ([], Fulfilled \<lparr>result = ''ok'', message = Some ''No publicId provided.''\<rparr>)
   \<and> deleteFromCloudinary
         (fake_store\<lparr>uploader_destroy :=
            (\<lambda>pid rt. Fulfilled \<lparr>result = ''not found'', message = None\<rparr>)\<rparr>)
         (Some ''patwa_toli/posts/gone'') None
       = ([CloudDestroy ''patwa_toli/posts/gone'' ''auto''
             (Fulfilled \<lparr>result = ''not found'', message = None\<rparr>)],
          Fulfilled \<lparr>result = ''not found'', message = None\<rparr>)"
  using deleteFromCloudinary_idempotent
    [of "Some ''''"
        "fake_store\<lparr>uploader_destroy :=
           (\<lambda>pid rt. Fulfilled \<lparr>result = ''not found'', message = None\<rparr>)\<rparr>"
        None "''patwa_toli/posts/gone''" "\<lparr>result = ''not found'', message = None\<rparr>"]
  by (simp add: truthy_def fake_store_def)

section \<open>Shapes of the logs of the helpers\<close>

lemma destroys_preceded_by_append:
  "destroys_preceded_by P seen (xs @ ys)
     = (destroys_preceded_by P seen xs \<and> destroys_preceded_by P (seen \<or> list_ex P xs) ys)"
  by (induction xs arbitrary: seen) auto

lemma no_destroy_after_append:
  "no_destroy_after P seen (xs @ ys)
     = (no_destroy_after P seen xs \<and> no_destroy_after P (seen \<or> list_ex P xs) ys)"
  by (induction xs arbitrary: seen) auto

lemma destroys_preceded_by_none:
  "\<not> list_ex is_destroy xs \<Longrightarrow> destroys_preceded_by P seen xs"
  by (induction xs arbitrary: seen) auto

lemma no_destroy_after_none:
  "\<not> list_ex is_destroy xs \<Longrightarrow> no_destroy_after P seen xs"
  by (induction xs arbitrary: seen) auto

lemma destroyed_ids_append: "destroyed_ids (xs @ ys) = destroyed_ids xs @ destroyed_ids ys"
  by (induction xs rule: destroyed_ids.induct) auto

lemma destroyed_ids_none: "\<not> list_ex is_destroy xs \<Longrightarrow> destroyed_ids xs = []"
  by (induction xs rule: destroyed_ids.induct) auto

lemma uploadToCloudinary_log:
  "\<not> list_ex is_destroy (fst (uploadToCloudinary e (Some f) folder))"
  "\<not> list_ex is_save (fst (uploadToCloudinary e (Some f) folder))"
  "snd (uploadToCloudinary e (Some f) folder) = Fulfilled r \<Longrightarrow>
     truthy (opt_field secure_url r) \<Longrightarrow>
     list_ex upload_succeeded (fst (uploadToCloudinary e (Some f) folder))"
  by (auto simp: uploadToCloudinary_def formatBufferToDataURI_def opt_field_def
      split: option.splits outcome.splits)

lemma try_delete_log:
  "try_delete e h rt = (if truthy h
     then [CloudDestroy (the h) (case rt of None \<Rightarrow> ''auto'' | Some t \<Rightarrow> t)
             (uploader_destroy e (the h) (case rt of None \<Rightarrow> ''auto'' | Some t \<Rightarrow> t))]
     else [])"
  by (auto simp: try_delete_def deleteFromCloudinary_def truthy_def Let_def
      split: option.splits outcome.splits)

lemma try_delete_no_save: "\<not> list_ex is_save (try_delete e h rt)"
  by (simp add: try_delete_log)

lemma save_and_respond_no_destroy: "\<not> list_ex is_destroy (save_and_respond e url h st msg)"
  by (auto simp: save_and_respond_def split: option.splits)

lemma delete_and_respond_no_destroy: "\<not> list_ex is_destroy (delete_and_respond e msg)"
  by (auto simp: delete_and_respond_def split: option.splits)

lemma replace_tail_order:
  assumes "\<not> list_ex is_destroy tr" and "\<not> list_ex is_save tr" and "list_ex upload_succeeded tr"
  shows "destroy_only_after_upload (tr @ try_delete e h rt @ save_and_respond e' url h' st msg)"
    and "destroy_before_save (tr @ try_delete e h rt @ save_and_respond e' url h' st msg)"
    and "destroy_only_after_upload (tr @ save_and_respond e' url h' st msg)"
    and "destroy_before_save (tr @ save_and_respond e' url h' st msg)"
  using assms save_and_respond_no_destroy [of e' url h' st msg]
  by (simp_all add: destroy_only_after_upload_def destroy_before_save_def
      destroys_preceded_by_append no_destroy_after_append destroys_preceded_by_none
      no_destroy_after_none try_delete_log)

lemma failed_tail_order:
  assumes "\<not> list_ex is_destroy tr"
  shows "destroy_only_after_upload (tr @ [Next c m])" and "destroy_before_save (tr @ [Next c m])"
  using assms
  by (simp_all add: destroy_only_after_upload_def destroy_before_save_def
      destroys_preceded_by_append no_destroy_after_append destroys_preceded_by_none
      no_destroy_after_none)

lemma save_only_order:
  "destroy_only_after_upload (save_and_respond e url h st msg)"
  "destroy_before_save (save_and_respond e url h st msg)"
  using save_and_respond_no_destroy [of e url h st msg]
  by (simp_all add: destroy_only_after_upload_def destroy_before_save_def
      destroys_preceded_by_none no_destroy_after_none)

lemma next_only_order:
  "destroy_only_after_upload [Next c m]" "destroy_before_save [Next c m]"
  by (simp_all add: destroy_only_after_upload_def destroy_before_save_def)

section \<open>Replacing media\<close>

lemma updateEvent_order:
  "destroy_only_after_upload (updateEvent e req found)
   \<and> destroy_before_save (updateEvent e req found)"
  unfolding updateEvent_def Let_def
  by (auto split: option.splits outcome.splits
      simp: case_prod_beta replace_tail_order failed_tail_order save_only_order next_only_order
        uploadToCloudinary_log)

lemma updateBusiness_order:
  "destroy_only_after_upload (updateBusiness e req found)
   \<and> destroy_before_save (updateBusiness e req found)"
  unfolding updateBusiness_def Let_def
  by (auto split: option.splits outcome.splits
      simp: case_prod_beta replace_tail_order failed_tail_order save_only_order next_only_order
        uploadToCloudinary_log)

lemma updateMyProfile_order:
  "destroy_only_after_upload (updateMyProfile e req found)
   \<and> destroy_before_save (updateMyProfile e req found)"
  unfolding updateMyProfile_def Let_def
  by (auto split: option.splits outcome.splits
      simp: case_prod_beta replace_tail_order failed_tail_order save_only_order next_only_order
        uploadToCloudinary_log)

text \<open>
  Claim C1, as amended. In the profile, event and business update handlers the remote
  delete of the old handle is invoked only after the upload of the new media has
  completed with a URL, and it is invoked before the record is saved: no delete follows
  the save, so the save of the new reference is not awaited before the old asset goes.
\<close>

theorem replace_deletes_after_upload_before_save:
  "destroy_only_after_upload (updateMyProfile e req u)
   \<and> destroy_before_save (updateMyProfile e req u)
   \<and> destroy_only_after_upload (updateEvent e req ev)
   \<and> destroy_before_save (updateEvent e req ev)
   \<and> destroy_only_after_upload (updateBusiness e req b)
   \<and> destroy_before_save (updateBusiness e req b)"
  using updateMyProfile_order updateEvent_order updateBusiness_order by blast

theorem replace_deletes_after_upload_before_save_witness:
  "destroyed_ids
     (updateBusiness fake_store (request_of ''u1'' (Some (jpeg ''businessImage'')))
        (Some \<lparr>owner = ''u1'',
               business_image = Some ''https://res.cloudinary.com/demo/image/upload/v1/patwa_toli/businesses/a.jpg'',
               business_imagePublicId = Some ''patwa_toli/businesses/a''\<rparr>))
     = [''patwa_toli/businesses/a'']
   \<and> destroy_only_after_upload
       (updateBusiness fake_store (request_of ''u1'' (Some (jpeg ''businessImage'')))
          (Some \<lparr>owner = ''u1'',
                 business_image = Some ''https://res.cloudinary.com/demo/image/upload/v1/patwa_toli/businesses/a.jpg'',
                 business_imagePublicId = Some ''patwa_toli/businesses/a''\<rparr>))
   \<and> destroy_before_save
       (updateBusiness fake_store (request_of ''u1'' (Some (jpeg ''businessImage'')))
          (Some \<lparr>owner = ''u1'',
                 business_image = Some ''https://res.cloudinary.com/demo/image/upload/v1/patwa_toli/businesses/a.jpg'',
                 business_imagePublicId = Some ''patwa_toli/businesses/a''\<rparr>))"
proof -
  have "destroyed_ids
     (updateBusiness fake_store (request_of ''u1'' (Some (jpeg ''businessImage'')))
        (Some \<lparr>owner = ''u1'',
               business_image = Some ''https://res.cloudinary.com/demo/image/upload/v1/patwa_toli/businesses/a.jpg'',
               business_imagePublicId = Some ''patwa_toli/businesses/a''\<rparr>))
     = [''patwa_toli/businesses/a'']"
    by code_simp
  with replace_deletes_after_upload_before_save
         [of fake_store "request_of ''u1'' (Some (jpeg ''businessImage''))" None None
             "Some \<lparr>owner = ''u1'',
               business_image = Some ''https://res.cloudinary.com/demo/image/upload/v1/patwa_toli/businesses/a.jpg'',
               business_imagePublicId = Some ''patwa_toli/businesses/a''\<rparr>"]
  show ?thesis by blast
qed

text \<open>
  Claim C1 as stated fails: \<open>updateEvent\<close> deletes the old image before it saves the
  event, and has deleted it when the save then fails.
\<close>

theorem replace_deletes_before_save_counterexample:
  "updateEvent (fake_store\<lparr>save_error := Some ''write failed''\<rparr>)
     (request_of ''u1'' (Some (jpeg ''eventImage'')))
     (Some \<lparr>organizer = ''u1'',
            event_image = Some ''https://res.cloudinary.com/demo/image/upload/v1/patwa_toli/events/old.jpg'',
            event_imagePublicId = Some ''patwa_toli/events/old''\<rparr>)
   = [FormatBuffer ''new.jpg'',
      CloudUpload ''patwa_toli/events''
        (Fulfilled \<lparr>secure_url = Some ''https://res.cloudinary.com/demo/image/upload/v2/patwa_toli/events/new.jpg'',
                    public_id = Some ''patwa_toli/events/new''\<rparr>),
      CloudDestroy ''patwa_toli/events/old'' ''auto'' (Fulfilled \<lparr>result = ''ok'', message = None\<rparr>),
      DbSaveFailed ''write failed'',
      Next None ''write failed'']
   \<and> \<not> destroy_only_after_save
         (updateEvent (fake_store\<lparr>save_error := Some ''write failed''\<rparr>)
            (request_of ''u1'' (Some (jpeg ''eventImage'')))
            (Some \<lparr>organizer = ''u1'',
                   event_image = Some ''https://res.cloudinary.com/demo/image/upload/v1/patwa_toli/events/old.jpg'',
                   event_imagePublicId = Some ''patwa_toli/events/old''\<rparr>))
   \<and> \<not> destroy_only_after_save
         (updateEvent fake_store (request_of ''u1'' (Some (jpeg ''eventImage'')))
            (Some \<lparr>organizer = ''u1'',
                   event_image = Some ''https://res.cloudinary.com/demo/image/upload/v1/patwa_toli/events/old.jpg'',
                   event_imagePublicId = Some ''patwa_toli/events/old''\<rparr>))"
  by code_simp

section \<open>Deleting an entity with media\<close>

lemma destroyed_ids_try_delete: "destroyed_ids (try_delete e h rt) = handles_of h"
  by (auto simp: try_delete_log handles_of_def truthy_def split: option.splits)

lemma destroyed_ids_delete_and_respond: "destroyed_ids (delete_and_respond e msg) = []"
  by (simp add: destroyed_ids_none delete_and_respond_no_destroy)



lemma handles_of_falsy: "\<not> truthy h \<Longrightarrow> handles_of h = []"
  by (auto simp: handles_of_def truthy_def split: option.splits)

text \<open>
  Claim C2, as amended. \<open>deletePost\<close> passes to the remote delete the stored
  \<open>mediaPublicId\<close> when it is present, and otherwise the handle derived by
  \<open>getPublicIdFromUrl\<close> from the stored URL. \<open>deleteStory\<close>, \<open>deleteEvent\<close> and
  \<open>deleteBusiness\<close> pass the stored handle only: when it is absent they make no remote
  call and derive nothing from the URL.
\<close>

theorem delete_handle_resolution:
  "(id_valid req \<and> find_error e = None \<and> (post_user p = user_id req \<or> isAdmin req) \<longrightarrow>
      destroyed_ids (deletePost e req (Some p))
        = handles_of (resolve_handle (mediaPublicId p) (js_or (post_image p) (post_video p))))
   \<and> (id_valid req \<and> find_error e = None \<and> story_user s = user_id req \<longrightarrow>
      destroyed_ids (deleteStory e req (Some s)) = handles_of (publicId s))
   \<and> (id_valid req \<and> find_error e = None \<and> (organizer ev = user_id req \<or> isAdmin req) \<longrightarrow>
      destroyed_ids (deleteEvent e req (Some ev)) = handles_of (event_imagePublicId ev))
   \<and> (id_valid req \<and> find_error e = None \<and> (owner b = user_id req \<or> isAdmin req) \<longrightarrow>
      destroyed_ids (deleteBusiness e req (Some b)) = handles_of (business_imagePublicId b))"
  by (auto simp: deletePost_def deleteStory_def deleteEvent_def deleteBusiness_def Let_def
      destroyed_ids_append destroyed_ids_try_delete destroyed_ids_delete_and_respond
      resolve_handle_def js_or_def handles_of_falsy)

theorem delete_handle_resolution_witness:
  "destroyed_ids
     (deletePost fake_store (request_of ''u1'' None)
        (Some \<lparr>post_user = ''u1'',
               post_image = Some ''https://res.cloudinary.com/demo/image/upload/v1/patwa_toli/posts/p.jpg'',
               post_video = None, mediaPublicId = None\<rparr>))
     = [''patwa_toli/posts/p'']
   \<and> destroyed_ids
       (deleteStory fake_store (request_of ''u1'' None)
          (Some \<lparr>story_user = ''u1'',
                 mediaUrl = Some ''https://res.cloudinary.com/demo/image/upload/v1/patwa_toli/stories/s.jpg'',
                 publicId = Some ''patwa_toli/stories/s''\<rparr>))
     = [''patwa_toli/stories/s'']
   \<and> destroyed_ids
       (deleteEvent fake_store (request_of ''u1'' None)
          (Some \<lparr>organizer = ''u1'', event_image = None,
                 event_imagePublicId = Some ''patwa_toli/events/e''\<rparr>))
     = [''patwa_toli/events/e'']
   \<and> destroyed_ids
       (deleteBusiness fake_store (request_of ''u1'' None)
          (Some \<lparr>owner = ''u1'', business_image = None,
                 business_imagePublicId = Some ''patwa_toli/businesses/b''\<rparr>))
     = [''patwa_toli/businesses/b'']"
proof -
  have g: "getPublicIdFromUrl
             (Some ''https://res.cloudinary.com/demo/image/upload/v1/patwa_toli/posts/p.jpg'')
           = Some ''patwa_toli/posts/p''"
    by code_simp
  show ?thesis
    using delete_handle_resolution
      [of "request_of ''u1'' None" fake_store
          "\<lparr>post_user = ''u1'',
            post_image = Some ''https://res.cloudinary.com/demo/image/upload/v1/patwa_toli/posts/p.jpg'',
            post_video = None, mediaPublicId = None\<rparr>"
          "\<lparr>story_user = ''u1'',
            mediaUrl = Some ''https://res.cloudinary.com/demo/image/upload/v1/patwa_toli/stories/s.jpg'',
            publicId = Some ''patwa_toli/stories/s''\<rparr>"
          "\<lparr>organizer = ''u1'', event_image = None,
            event_imagePublicId = Some ''patwa_toli/events/e''\<rparr>"
          "\<lparr>owner = ''u1'', business_image = None,
            business_imagePublicId = Some ''patwa_toli/businesses/b''\<rparr>"]
      g
    by (simp add: request_of_def fake_store_def resolve_handle_def js_or_def truthy_def
        handles_of_def)
qed

text \<open>
  Claim C2 as stated fails: a business or an event whose record holds a Cloudinary URL
  and no handle is deleted without any remote delete, although the URL resolves to a
  handle.
\<close>

theorem delete_handle_resolution_counterexample:
  "resolve_handle None
     (Some ''https://res.cloudinary.com/demo/image/upload/v1/patwa_toli/businesses/shop.jpg'')
     = Some ''patwa_toli/businesses/shop''
   \<and> deleteBusiness fake_store (request_of ''u1'' None)
       (Some \<lparr>owner = ''u1'',
              business_image = Some ''https://res.cloudinary.com/demo/image/upload/v1/patwa_toli/businesses/shop.jpg'',
              business_imagePublicId = None\<rparr>)
     = [DbDelete, Respond 200 ''Business listing deleted successfully.'']
   \<and> resolve_handle None
       (Some ''https://res.cloudinary.com/demo/image/upload/v2/patwa_toli/events/new.jpg'')
     = Some ''patwa_toli/events/new''
   \<and> deleteEvent fake_store (request_of ''u1'' None)
       (Some \<lparr>organizer = ''u1'',
              event_image = Some ''https://res.cloudinary.com/demo/image/upload/v2/patwa_toli/events/new.jpg'',
              event_imagePublicId = None\<rparr>)
     = [DbDelete, Respond 200 ''Event deleted.'']"
  by code_simp

text \<open>
  Claim C5. In the four delete handlers, once the record is found and the caller is
  allowed to delete it, the log is the remote delete (if any) followed by the delete of
  the record and the response 200, whatever the remote store answers: a rejected remote
  delete is dropped and the delete of the record follows.
\<close>

theorem remote_delete_failure_is_swallowed:
  "(id_valid req \<and> find_error e = None \<and> delete_error e = None \<longrightarrow>
      (story_user s = user_id req \<longrightarrow>
         deleteStory e req (Some s)
           = (if truthy (publicId s) then try_delete e (publicId s) None else [])
             @ [DbDelete, Respond 200 ''Story deleted.''])
      \<and> (organizer ev = user_id req \<or> isAdmin req \<longrightarrow>
         deleteEvent e req (Some ev)
           = (if truthy (event_imagePublicId ev)
              then try_delete e (event_imagePublicId ev) None else [])
             @ [DbDelete, Respond 200 ''Event deleted.''])
      \<and> (owner b = user_id req \<or> isAdmin req \<longrightarrow>
         deleteBusiness e req (Some b)
           = (if truthy (business_imagePublicId b)
              then try_delete e (business_imagePublicId b) None else [])
             @ [DbDelete, Respond 200 ''Business listing deleted successfully.''])
      \<and> (post_user p = user_id req \<or> isAdmin req \<longrightarrow>
         deletePost e req (Some p)
           = (if truthy (resolve_handle (mediaPublicId p) (js_or (post_image p) (post_video p)))
              then try_delete e
                     (resolve_handle (mediaPublicId p) (js_or (post_image p) (post_video p)))
                     (Some (if truthy (post_video p) then ''video'' else ''image''))
              else [])
             @ [DbDelete, Respond 200 ''Post deleted successfully.'']))
   \<and> list_all is_destroy (try_delete e h' rt')"
proof -
  have "list_all is_destroy (try_delete e h' rt')"
    by (simp add: try_delete_log)
  then show ?thesis
    by (auto simp: deletePost_def deleteStory_def deleteEvent_def deleteBusiness_def Let_def
        delete_and_respond_def resolve_handle_def js_or_def)
qed

theorem remote_delete_failure_is_swallowed_witness:
  "deleteStory (fake_store\<lparr>uploader_destroy := (\<lambda>pid rt. Rejected ''timeout'')\<rparr>)
     (request_of ''u1'' None)
     (Some \<lparr>story_user = ''u1'', mediaUrl = None, publicId = Some ''patwa_toli/stories/s''\<rparr>)
   = [CloudDestroy ''patwa_toli/stories/s'' ''auto'' (Rejected ''timeout''),
      DbDelete, Respond 200 ''Story deleted.'']
   \<and> deleteEvent (fake_store\<lparr>uploader_destroy := (\<lambda>pid rt. Rejected ''timeout'')\<rparr>)
       (request_of ''u1'' None)
       (Some \<lparr>organizer = ''u1'', event_image = None,
              event_imagePublicId = Some ''patwa_toli/events/e''\<rparr>)
     = [CloudDestroy ''patwa_toli/events/e'' ''auto'' (Rejected ''timeout''),
        DbDelete, Respond 200 ''Event deleted.'']
   \<and> deleteBusiness (fake_store\<lparr>uploader_destroy := (\<lambda>pid rt. Rejected ''timeout'')\<rparr>)
       (request_of ''u1'' None)
       (Some \<lparr>owner = ''u1'', business_image = None,
              business_imagePublicId = Some ''patwa_toli/businesses/b''\<rparr>)
     = [CloudDestroy ''patwa_toli/businesses/b'' ''auto'' (Rejected ''timeout''),
        DbDelete, Respond 200 ''Business listing deleted successfully.'']
   \<and> deletePost (fake_store\<lparr>uploader_destroy := (\<lambda>pid rt. Rejected ''timeout'')\<rparr>)
       (request_of ''u1'' None)
       (Some \<lparr>post_user = ''u1'', post_image = None,
              post_video = Some ''https://res.cloudinary.com/demo/video/upload/v1/patwa_toli/posts/clip.mp4'',
              mediaPublicId = None\<rparr>)
     = [CloudDestroy ''patwa_toli/posts/clip'' ''video'' (Rejected ''timeout''),
        DbDelete, Respond 200 ''Post deleted successfully.'']"
proof -
  have g: "getPublicIdFromUrl
             (Some ''https://res.cloudinary.com/demo/video/upload/v1/patwa_toli/posts/clip.mp4'')
           = Some ''patwa_toli/posts/clip''"
    by code_simp
  show ?thesis
  using remote_delete_failure_is_swallowed
    [of "request_of ''u1'' None"
        "fake_store\<lparr>uploader_destroy := (\<lambda>pid rt. Rejected ''timeout'')\<rparr>"
        "\<lparr>story_user = ''u1'', mediaUrl = None, publicId = Some ''patwa_toli/stories/s''\<rparr>"
        "\<lparr>organizer = ''u1'', event_image = None,
          event_imagePublicId = Some ''patwa_toli/events/e''\<rparr>"
        "\<lparr>owner = ''u1'', business_image = None,
          business_imagePublicId = Some ''patwa_toli/businesses/b''\<rparr>"
        "\<lparr>post_user = ''u1'', post_image = None,
          post_video = Some ''https://res.cloudinary.com/demo/video/upload/v1/patwa_toli/posts/clip.mp4'',
          mediaPublicId = None\<rparr>"]
      g
  by (simp add: request_of_def fake_store_def truthy_def try_delete_log resolve_handle_def
      js_or_def)
qed

section \<open>Where a saved reference comes from\<close>

lemma save_and_respond_saved:
  "DbSave url' h' \<in> set (save_and_respond e url h st msg) \<Longrightarrow> url' = url \<and> h' = h"
  by (auto simp: save_and_respond_def split: option.splits)

lemma upload_log_no_save: "DbSave url h \<notin> set (fst (uploadToCloudinary e file folder))"
  by (auto simp: uploadToCloudinary_def formatBufferToDataURI_def
      split: option.splits outcome.splits)

lemma try_delete_log_no_save: "DbSave url h \<notin> set (try_delete e h' rt)"
  by (simp add: try_delete_log)

lemma uploadToCloudinary_result:
  "snd (uploadToCloudinary e (Some f) folder) = Fulfilled x \<Longrightarrow>
     \<exists>r. x = Some r
       \<and> CloudUpload folder (Fulfilled r) \<in> set (fst (uploadToCloudinary e (Some f) folder))"
  by (auto simp: uploadToCloudinary_def formatBufferToDataURI_def
      split: option.splits outcome.splits)

text \<open>
  The media fields of a record that a create or update handler saves are those of the
  result of the upload made in the same request, or, in an update without a new file,
  the ones the record already had: a URL enters a post, story, event or business record
  only as the \<open>secure_url\<close> that the remote store returned.
\<close>

lemma createStory_saved_reference:
  "DbSave url h \<in> set (createStory e req) \<Longrightarrow>
     \<exists>folder r. CloudUpload folder (Fulfilled r) \<in> set (createStory e req)
        \<and> url = secure_url r \<and> h = public_id r"
  unfolding createStory_def
  by (auto split: option.splits outcome.splits if_splits
      simp: case_prod_beta upload_log_no_save opt_field_def
      dest!: save_and_respond_saved uploadToCloudinary_result)

lemma createEvent_saved_reference:
  "DbSave url h \<in> set (createEvent e req) \<Longrightarrow>
     (url = None \<and> h = None)
     \<or> (\<exists>folder r. CloudUpload folder (Fulfilled r) \<in> set (createEvent e req)
          \<and> url = secure_url r \<and> h = public_id r)"
  unfolding createEvent_def
  by (auto split: option.splits outcome.splits if_splits
      simp: case_prod_beta upload_log_no_save opt_field_def
      dest!: save_and_respond_saved uploadToCloudinary_result)

lemma createBusiness_saved_reference:
  "DbSave url h \<in> set (createBusiness e req) \<Longrightarrow>
     (url = None \<and> h = None)
     \<or> (\<exists>folder r. CloudUpload folder (Fulfilled r) \<in> set (createBusiness e req)
          \<and> url = secure_url r \<and> h = public_id r)"
  unfolding createBusiness_def
  by (auto split: option.splits outcome.splits if_splits
      simp: case_prod_beta upload_log_no_save opt_field_def
      dest!: save_and_respond_saved uploadToCloudinary_result)

lemma updateEvent_saved_reference:
  "DbSave url h \<in> set (updateEvent e req (Some ev)) \<Longrightarrow>
     (url = event_image ev \<and> h = event_imagePublicId ev)
     \<or> (\<exists>folder r. CloudUpload folder (Fulfilled r) \<in> set (updateEvent e req (Some ev))
          \<and> url = secure_url r \<and> h = public_id r)"
  unfolding updateEvent_def Let_def
  by (auto split: option.splits outcome.splits if_splits
      simp: case_prod_beta upload_log_no_save try_delete_log_no_save opt_field_def
      dest!: save_and_respond_saved uploadToCloudinary_result)

lemma updateBusiness_saved_reference:
  "DbSave url h \<in> set (updateBusiness e req (Some b)) \<Longrightarrow>
     (url = business_image b \<and> h = business_imagePublicId b)
     \<or> (\<exists>folder r. CloudUpload folder (Fulfilled r) \<in> set (updateBusiness e req (Some b))
          \<and> url = secure_url r \<and> h = public_id r)"
  unfolding updateBusiness_def Let_def
  by (auto split: option.splits outcome.splits if_splits
      simp: case_prod_beta upload_log_no_save try_delete_log_no_save opt_field_def
      dest!: save_and_respond_saved uploadToCloudinary_result)

section \<open>The default placeholder\<close>





section \<open>Creating an entity with media\<close>

text \<open>
  In \<open>createStory\<close>, \<open>createBusiness\<close> and \<open>createPost\<close> a failed upload (a rejection,
  or a result without URL or without handle) ends the request before \<open>save()\<close>.
  \<open>createEvent\<close> does so for a rejection and for a result without URL.
\<close>

lemma create_not_saved_when_upload_fails:
  "req_file req = Some f \<Longrightarrow>
     upload_failed (snd (uploadToCloudinary e (Some f) ''patwa_toli/stories'')) \<Longrightarrow>
     \<not> list_ex is_save (createStory e req)"
  "req_file req = Some f \<Longrightarrow>
     upload_failed (snd (uploadToCloudinary e (Some f) ''patwa_toli/businesses'')) \<Longrightarrow>
     \<not> list_ex is_save (createBusiness e req)"
  "files_image req = Some f \<Longrightarrow>
     upload_failed (snd (uploadToCloudinary e (Some f) ''patwa_toli/posts'')) \<Longrightarrow>
     \<not> list_ex is_save (createPost e req)"
  "files_image req = None \<Longrightarrow> files_video req = Some f \<Longrightarrow>
     upload_failed (snd (uploadToCloudinary e (Some f) ''patwa_toli/posts'')) \<Longrightarrow>
     \<not> list_ex is_save (createPost e req)"
  unfolding createStory_def createBusiness_def createPost_def Let_def upload_failed_def
  by (auto split: option.splits outcome.splits
      simp: case_prod_beta uploadToCloudinary_log)

lemma createEvent_not_saved_without_url:
  "req_file req = Some f \<Longrightarrow>
     (case snd (uploadToCloudinary e (Some f) ''patwa_toli/events'') of
        Rejected m \<Rightarrow> True
      | Fulfilled r \<Rightarrow> \<not> truthy (opt_field secure_url r)) \<Longrightarrow>
     \<not> list_ex is_save (createEvent e req)"
  unfolding createEvent_def
  by (auto split: option.splits outcome.splits
      simp: case_prod_beta uploadToCloudinary_log)

text \<open>
  Claim C4 fails in \<open>createEvent\<close>, which tests the URL of the upload result and not its
  handle: when the remote store answers with a URL and no handle, the event is saved
  with that URL and without a handle.
\<close>

theorem createEvent_saves_without_handle:
  "createEvent
     (fake_store\<lparr>uploader_upload :=
        (\<lambda>d folder. Fulfilled
           \<lparr>secure_url = Some ''https://res.cloudinary.com/demo/image/upload/v2/patwa_toli/events/new.jpg'',
            public_id = None\<rparr>)\<rparr>)
     (request_of ''u1'' (Some (jpeg ''eventImage'')))
   = [FormatBuffer ''new.jpg'',
      CloudUpload ''patwa_toli/events''
        (Fulfilled \<lparr>secure_url = Some ''https://res.cloudinary.com/demo/image/upload/v2/patwa_toli/events/new.jpg'',
                    public_id = None\<rparr>),
      DbSave (Some ''https://res.cloudinary.com/demo/image/upload/v2/patwa_toli/events/new.jpg'') None,
      Respond 201 ''Event created.'']"
  by code_simp

text \<open>
  The same answer of the remote store is a failed upload, and \<open>createBusiness\<close> stops on
  it before \<open>save()\<close>.
\<close>

lemma createBusiness_stops_without_handle:
  "upload_failed
     (snd (uploadToCloudinary
             (fake_store\<lparr>uploader_upload :=
                (\<lambda>d folder. Fulfilled
                   \<lparr>secure_url = Some ''https://res.cloudinary.com/demo/image/upload/v2/patwa_toli/events/new.jpg'',
                    public_id = None\<rparr>)\<rparr>)
             (Some (jpeg ''eventImage'')) ''patwa_toli/events''))
   \<and> createBusiness
       (fake_store\<lparr>uploader_upload :=
          (\<lambda>d folder. Fulfilled
             \<lparr>secure_url = Some ''https://res.cloudinary.com/demo/image/upload/v2/patwa_toli/events/new.jpg'',
              public_id = None\<rparr>)\<rparr>)
       (request_of ''u1'' (Some (jpeg ''businessImage'')))
     = [FormatBuffer ''new.jpg'',
        CloudUpload ''patwa_toli/businesses''
          (Fulfilled \<lparr>secure_url = Some ''https://res.cloudinary.com/demo/image/upload/v2/patwa_toli/events/new.jpg'',
                      public_id = None\<rparr>),
        Next None ''Business image upload to Cloudinary failed.'']"
  by code_simp

section \<open>The upload gateway\<close>

lemma multer_files_oversize:
  "f \<in> set parts \<Longrightarrow> fileSize opts < file_length f \<Longrightarrow>
     \<exists>err. multer_files opts left parts = Inl err"
proof (induction parts arbitrary: left)
  case Nil
  then show ?case by simp
next
  case (Cons g gs)
  show ?case
  proof (cases "g = f")
    case True
    with Cons.prems show ?thesis by (auto split: option.splits)
  next
    case False
    with Cons.prems have "f \<in> set gs" by simp
    from Cons.IH [OF this Cons.prems(2)]
    obtain err where "multer_files opts (left(fieldname g := left (fieldname g) - 1)) gs = Inl err"
      by blast
    then show ?thesis by (auto split: option.splits)
  qed
qed

lemma with_upload_rejected:
  "multer opts parts = Inl err \<Longrightarrow> with_upload opts parts handler = errorHandler err"
  by (simp add: with_upload_def)

lemma errorHandler_no_upload:
  "\<not> list_ex is_upload (errorHandler err)" "\<not> list_ex is_format (errorHandler err)"
  by (simp_all add: errorHandler_def)

lemma multer_files_first_failure:
  assumes "multer_files opts left pre = Inr acc"
    and "fieldname f \<notin> fieldname ` set pre"
    and "left (fieldname f) \<noteq> 0"
    and "fileSize opts < file_length f"
  shows "multer_files opts left (pre @ f # rest)
           = Inl (case fileFilter opts f of
                    Some err \<Rightarrow> err
                  | None \<Rightarrow> \<lparr>code = ''LIMIT_FILE_SIZE'', field = fieldname f\<rparr>)"
  using assms
proof (induction pre arbitrary: left acc)
  case Nil
  then show ?case by (simp split: option.splits)
next
  case (Cons g gs)
  let ?left = "left(fieldname g := left (fieldname g) - 1)"
  from Cons.prems(1) obtain acc' where gs: "multer_files opts ?left gs = Inr acc'"
    and g: "left (fieldname g) \<noteq> 0" "fileFilter opts g = None" "\<not> fileSize opts < file_length g"
    by (auto split: if_splits option.splits sum.splits)
  from Cons.prems(2) have ne: "fieldname f \<noteq> fieldname g" and notin: "fieldname f \<notin> fieldname ` set gs"
    by auto
  from ne Cons.prems(3) have "?left (fieldname f) \<noteq> 0" by simp
  note ih = Cons.IH [OF gs notin this Cons.prems(4)]
  show ?case
    apply (simp only: append_Cons multer_files.simps)
    apply (simp only: ih)
    using g apply simp
    done
qed

lemma multer_files_earlier_failure:
  "multer_files opts left pre = Inl err \<Longrightarrow> multer_files opts left (pre @ rest) = Inl err"
  by (induction pre arbitrary: left) (auto split: if_splits option.splits sum.splits)

lemma filter_error_code:
  "imageFileFilter f = Some err \<Longrightarrow> code err = ''LIMIT_UNEXPECTED_FILE''"
  "mediaFileFilter f = Some err \<Longrightarrow> code err = ''LIMIT_UNEXPECTED_FILE''"
  by (auto simp: imageFileFilter_def mediaFileFilter_def split: if_splits)

text \<open>
  Claim C8, as amended. A request that carries a pending upload larger than the limit
  of its class is rejected by the upload middleware with a \<open>MulterError\<close>, answered with
  status 400, and the handler does not run, so the buffer is not formatted and no
  remote upload is attempted; this holds for the five classes with their limits of 5,
  50, 25, 10 and 10 MB. When the parts of the request before the oversize upload are
  accepted and it is the first file of a field that expects one, the error is
  \<open>LIMIT_FILE_SIZE\<close> if the filter of the class accepts its MIME type, and the error of
  the filter, \<open>LIMIT_UNEXPECTED_FILE\<close>, if not. When an earlier part is rejected, the
  error is that of the earlier part.
\<close>

theorem oversize_upload_rejected:
  "(f \<in> set parts \<and> fileSize opts < file_length f \<longrightarrow>
      (\<exists>err. multer opts parts = Inl err
         \<and> (\<forall>handler. with_upload opts parts handler
               = [Respond 400 (''File Upload Error: '' @ code err)])))
   \<and> (multer opts pre = Inr acc \<and> fieldname f \<notin> fieldname ` set pre
        \<and> filesLeft_init opts (fieldname f) \<noteq> 0 \<and> fileSize opts < file_length f \<longrightarrow>
      multer opts (pre @ f # others)
        = Inl (case fileFilter opts f of
                 Some err \<Rightarrow> err
               | None \<Rightarrow> \<lparr>code = ''LIMIT_FILE_SIZE'', field = fieldname f\<rparr>))
   \<and> (opts \<in> {uploadProfilePic, uploadPostMedia, uploadStoryMedia, uploadEventImage,
                 uploadBusinessImage}
        \<and> fileFilter opts f = Some ferr \<longrightarrow> code ferr = ''LIMIT_UNEXPECTED_FILE'')
   \<and> (multer opts pre = Inl perr \<longrightarrow> multer opts (pre @ others) = Inl perr)
   \<and> (f \<in> set parts \<and> 5 * 1024 * 1024 < file_length f \<longrightarrow>
      \<not> list_ex is_upload (route_updateMyProfile e req parts u)
      \<and> \<not> list_ex is_format (route_updateMyProfile e req parts u))
   \<and> (f \<in> set parts \<and> 50 * 1024 * 1024 < file_length f \<longrightarrow>
      \<not> list_ex is_upload (route_createPost e req parts)
      \<and> \<not> list_ex is_format (route_createPost e req parts))
   \<and> (f \<in> set parts \<and> 25 * 1024 * 1024 < file_length f \<longrightarrow>
      \<not> list_ex is_upload (route_createStory e req parts)
      \<and> \<not> list_ex is_format (route_createStory e req parts))
   \<and> (f \<in> set parts \<and> 10 * 1024 * 1024 < file_length f \<longrightarrow>
      \<not> list_ex is_upload (route_createEvent e req parts)
      \<and> \<not> list_ex is_format (route_createEvent e req parts)
      \<and> \<not> list_ex is_upload (route_updateEvent e req parts ev)
      \<and> \<not> list_ex is_format (route_updateEvent e req parts ev)
      \<and> \<not> list_ex is_upload (route_createBusiness e req parts)
      \<and> \<not> list_ex is_format (route_createBusiness e req parts)
      \<and> \<not> list_ex is_upload (route_updateBusiness e req parts b)
      \<and> \<not> list_ex is_format (route_updateBusiness e req parts b))"
proof -
  have gen: "\<exists>err. multer opts' parts = Inl err
               \<and> (\<forall>handler. with_upload opts' parts handler = errorHandler err)"
    if "f \<in> set parts" "fileSize opts' < file_length f" for opts'
  proof -
    from multer_files_oversize [OF that]
    obtain err where "multer opts' parts = Inl err" unfolding multer_def by blast
    then show ?thesis by (auto simp: with_upload_rejected)
  qed
  have route: "\<not> list_ex is_upload (with_upload opts' parts handler)
               \<and> \<not> list_ex is_format (with_upload opts' parts handler)"
    if "f \<in> set parts" "fileSize opts' < file_length f" for opts' handler
    using gen [OF that] by (auto simp: errorHandler_no_upload)
  have kind: "multer opts (pre @ f # others)
        = Inl (case fileFilter opts f of
                 Some err \<Rightarrow> err
               | None \<Rightarrow> \<lparr>code = ''LIMIT_FILE_SIZE'', field = fieldname f\<rparr>)"
    if "multer opts pre = Inr acc" "fieldname f \<notin> fieldname ` set pre"
      "filesLeft_init opts (fieldname f) \<noteq> 0" "fileSize opts < file_length f"
    using that unfolding multer_def by (rule multer_files_first_failure)
  have refused: "code ferr = ''LIMIT_UNEXPECTED_FILE''"
    if "opts \<in> {uploadProfilePic, uploadPostMedia, uploadStoryMedia, uploadEventImage,
                 uploadBusinessImage}" "fileFilter opts f = Some ferr"
    using that
    by (auto simp: uploadProfilePic_def uploadPostMedia_def uploadStoryMedia_def
        uploadEventImage_def uploadBusinessImage_def dest: filter_error_code)
  have earlier: "multer opts (pre @ others) = Inl perr" if "multer opts pre = Inl perr"
    using that unfolding multer_def by (rule multer_files_earlier_failure)
  have sizes: "fileSize uploadProfilePic = 5 * 1024 * 1024"
    "fileSize uploadPostMedia = 50 * 1024 * 1024"
    "fileSize uploadStoryMedia = 25 * 1024 * 1024"
    "fileSize uploadEventImage = 10 * 1024 * 1024"
    "fileSize uploadBusinessImage = 10 * 1024 * 1024"
    by (simp_all add: uploadProfilePic_def uploadPostMedia_def uploadStoryMedia_def
        uploadEventImage_def uploadBusinessImage_def FIVE_MB_def FIFTY_MB_def
        TWENTY_FIVE_MB_def TEN_MB_def)
  have routes:
    "f \<in> set parts \<and> 5 * 1024 * 1024 < file_length f \<longrightarrow>
      \<not> list_ex is_upload (route_updateMyProfile e req parts u)
      \<and> \<not> list_ex is_format (route_updateMyProfile e req parts u)"
    "f \<in> set parts \<and> 50 * 1024 * 1024 < file_length f \<longrightarrow>
      \<not> list_ex is_upload (route_createPost e req parts)
      \<and> \<not> list_ex is_format (route_createPost e req parts)"
    "f \<in> set parts \<and> 25 * 1024 * 1024 < file_length f \<longrightarrow>
      \<not> list_ex is_upload (route_createStory e req parts)
      \<and> \<not> list_ex is_format (route_createStory e req parts)"
    "f \<in> set parts \<and> 10 * 1024 * 1024 < file_length f \<longrightarrow>
      \<not> list_ex is_upload (route_createEvent e req parts)
      \<and> \<not> list_ex is_format (route_createEvent e req parts)
      \<and> \<not> list_ex is_upload (route_updateEvent e req parts ev)
      \<and> \<not> list_ex is_format (route_updateEvent e req parts ev)
      \<and> \<not> list_ex is_upload (route_createBusiness e req parts)
      \<and> \<not> list_ex is_format (route_createBusiness e req parts)
      \<and> \<not> list_ex is_upload (route_updateBusiness e req parts b)
      \<and> \<not> list_ex is_format (route_updateBusiness e req parts b)"
    unfolding route_updateMyProfile_def route_createPost_def route_createStory_def
      route_createEvent_def route_updateEvent_def route_createBusiness_def
      route_updateBusiness_def
    using route [of uploadProfilePic] route [of uploadPostMedia]
      route [of uploadStoryMedia] route [of uploadEventImage] route [of uploadBusinessImage]
    by (simp_all only: sizes) blast+
  have first: "f \<in> set parts \<and> fileSize opts < file_length f \<longrightarrow>
      (\<exists>err. multer opts parts = Inl err
         \<and> (\<forall>handler. with_upload opts parts handler
               = [Respond 400 (''File Upload Error: '' @ code err)]))"
    using gen [of opts] by (simp only: errorHandler_def) blast
  from first kind refused earlier routes show ?thesis by blast
qed

theorem oversize_upload_rejected_witness:
  "fileSize uploadPostMedia
     < file_length \<lparr>fieldname = ''video'', originalname = ''clip.mp4'', mimetype = ''video/mp4'',
                     buffer = Some (replicate (60 * 1024 * 1024) 0)\<rparr>
   \<and> multer uploadPostMedia [jpeg ''image''] = Inr [jpeg ''image'']
   \<and> multer uploadPostMedia
       [jpeg ''image'',
        \<lparr>fieldname = ''video'', originalname = ''clip.mp4'', mimetype = ''video/mp4'',
         buffer = Some (replicate (60 * 1024 * 1024) 0)\<rparr>]
     = Inl \<lparr>code = ''LIMIT_FILE_SIZE'', field = ''video''\<rparr>
   \<and> route_createPost fake_store (request_of ''u1'' None)
       [jpeg ''image'',
        \<lparr>fieldname = ''video'', originalname = ''clip.mp4'', mimetype = ''video/mp4'',
         buffer = Some (replicate (60 * 1024 * 1024) 0)\<rparr>]
     = [Respond 400 ''File Upload Error: LIMIT_FILE_SIZE'']
   \<and> \<not> list_ex is_upload
         (route_createPost fake_store (request_of ''u1'' None)
            [jpeg ''image'',
             \<lparr>fieldname = ''video'', originalname = ''clip.mp4'', mimetype = ''video/mp4'',
              buffer = Some (replicate (60 * 1024 * 1024) 0)\<rparr>])
   \<and> multer uploadPostMedia
       [\<lparr>fieldname = ''image'', originalname = ''notes.txt'', mimetype = ''text/plain'',
         buffer = Some [104, 105]\<rparr>,
        \<lparr>fieldname = ''video'', originalname = ''clip.mp4'', mimetype = ''video/mp4'',
         buffer = Some (replicate (60 * 1024 * 1024) 0)\<rparr>]
     = Inl \<lparr>code = ''LIMIT_UNEXPECTED_FILE'',
            field = ''Only image or video files are allowed!''\<rparr>"
proof -
  let ?f = "\<lparr>fieldname = ''video'', originalname = ''clip.mp4'', mimetype = ''video/mp4'',
             buffer = Some (replicate (60 * 1024 * 1024) (0 :: byte))\<rparr>"
  have big: "fileSize uploadPostMedia < file_length ?f"
    by (simp add: uploadPostMedia_def FIFTY_MB_def file_length_def)
  have big': "50 * 1024 * 1024 < file_length ?f"
    by (simp add: file_length_def)
  have before: "multer uploadPostMedia [jpeg ''image''] = Inr [jpeg ''image'']"
    by (simp add: multer_def filesLeft_init_def uploadPostMedia_def mediaFileFilter_def
        jpeg_def file_length_def FIFTY_MB_def)
  have fresh: "fieldname ?f \<notin> fieldname ` set [jpeg ''image'']"
    by (simp add: jpeg_def)
  have expected: "filesLeft_init uploadPostMedia (fieldname ?f) \<noteq> 0"
    by (simp add: filesLeft_init_def uploadPostMedia_def)
  have allowed: "fileFilter uploadPostMedia ?f = None"
    by (simp add: uploadPostMedia_def mediaFileFilter_def)
  have mem: "?f \<in> set [jpeg ''image'', ?f]" by simp
  note gate = oversize_upload_rejected
         [where f = ?f and parts = "[jpeg ''image'', ?f]" and opts = uploadPostMedia
            and pre = "[jpeg ''image'']" and acc = "[jpeg ''image'']" and others = "[]"
            and e = fake_store and req = "request_of ''u1'' None"]
  from gate mem big have A: "\<exists>err. multer uploadPostMedia [jpeg ''image'', ?f] = Inl err
      \<and> (\<forall>handler. with_upload uploadPostMedia [jpeg ''image'', ?f] handler
            = [Respond 400 (''File Upload Error: '' @ code err)])"
    by blast
  from gate before fresh expected big
  have "multer uploadPostMedia ([jpeg ''image''] @ ?f # [])
          = Inl (case fileFilter uploadPostMedia ?f of
                   Some err \<Rightarrow> err
                 | None \<Rightarrow> \<lparr>code = ''LIMIT_FILE_SIZE'', field = fieldname ?f\<rparr>)"
    by blast
  with allowed
  have B: "multer uploadPostMedia [jpeg ''image'', ?f]
             = Inl \<lparr>code = ''LIMIT_FILE_SIZE'', field = ''video''\<rparr>"
    by simp
  from gate mem big'
  have C: "\<not> list_ex is_upload
             (route_createPost fake_store (request_of ''u1'' None) [jpeg ''image'', ?f])"
    by blast
  from A B have D: "route_createPost fake_store (request_of ''u1'' None) [jpeg ''image'', ?f]
      = [Respond 400 ''File Upload Error: LIMIT_FILE_SIZE'']"
    unfolding route_createPost_def by fastforce
  let ?t = "\<lparr>fieldname = ''image'', originalname = ''notes.txt'', mimetype = ''text/plain'',
             buffer = Some [104, 105 :: byte]\<rparr>"
  have refused: "multer uploadPostMedia [?t]
                   = Inl \<lparr>code = ''LIMIT_UNEXPECTED_FILE'',
                          field = ''Only image or video files are allowed!''\<rparr>"
    by (simp add: multer_def filesLeft_init_def uploadPostMedia_def mediaFileFilter_def)
  from oversize_upload_rejected
         [where opts = uploadPostMedia and pre = "[?t]" and others = "[?f]"
            and perr = "\<lparr>code = ''LIMIT_UNEXPECTED_FILE'',
                         field = ''Only image or video files are allowed!''\<rparr>"]
       refused
  have E: "multer uploadPostMedia ([?t] @ [?f])
             = Inl \<lparr>code = ''LIMIT_UNEXPECTED_FILE'',
                    field = ''Only image or video files are allowed!''\<rparr>"
    by blast
  from big before B C D E show ?thesis by simp
qed

text \<open>
  Claim C8 as stated fails on the kind of the error: a document of 6 MB sent as a
  profile picture exceeds the limit of 5 MB and is rejected by the file filter, with
  \<open>LIMIT_UNEXPECTED_FILE\<close>, not with the error of the size limit.
\<close>

theorem oversize_upload_rejected_counterexample:
  "fileSize uploadProfilePic
     < file_length \<lparr>fieldname = ''profilePic'', originalname = ''scan.pdf'',
                     mimetype = ''application/pdf'',
                     buffer = Some (replicate (6 * 1024 * 1024) 0)\<rparr>
   \<and> multer uploadProfilePic
       [\<lparr>fieldname = ''profilePic'', originalname = ''scan.pdf'', mimetype = ''application/pdf'',
         buffer = Some (replicate (6 * 1024 * 1024) 0)\<rparr>]
     = Inl \<lparr>code = ''LIMIT_UNEXPECTED_FILE'', field = ''Only image files are allowed!''\<rparr>
   \<and> route_updateMyProfile fake_store (request_of ''u1'' None)
       [\<lparr>fieldname = ''profilePic'', originalname = ''scan.pdf'', mimetype = ''application/pdf'',
         buffer = Some (replicate (6 * 1024 * 1024) 0)\<rparr>] None
     = [Respond 400 ''File Upload Error: LIMIT_UNEXPECTED_FILE'']"
  by (simp add: route_updateMyProfile_def with_upload_def multer_def filesLeft_init_def
      uploadProfilePic_def imageFileFilter_def FIVE_MB_def file_length_def errorHandler_def)

end
